theory Spec2Isabelle
  imports Main
begin

section \<open>JavaScript values\<close>

text \<open>
  The values that cross the dispatcher are JSON values: argument bags arrive as parsed
  JSON-RPC parameters and operation results are parsed response bodies or object literals.
  An object is the list of its own properties in enumeration order; a property read that
  finds nothing is \<open>None\<close> (JavaScript's \<open>undefined\<close>). Strings are lists of
  code units below 256. The program never computes with a number: it tests it for
  truthiness and prints it. So a number is given by the text that
  \<open>Number.prototype.toString\<close> prints for it, which tells two numbers apart except the
  two zeros, both \<open>0\<close>: \<open>19.99\<close>, \<open>-7\<close>, \<open>1e+21\<close>, \<open>18446744073709552000\<close>.
\<close>

datatype json =
    JNull
  | JBool bool
  | JNumber string
  | JStr string
  | JArr "json list"
  | JObj "(string \<times> json) list"

type_synonym obj = "(string \<times> json) list"

text \<open>Decimal numerals, of a length, a status code and a small integer.\<close>

definition digit_char :: "nat \<Rightarrow> char" where
  "digit_char d = ''0123456789'' ! d"

fun nat_str :: "nat \<Rightarrow> string" where
  "nat_str n = (if n < 10 then [digit_char n] else nat_str (n div 10) @ [digit_char (n mod 10)])"

declare nat_str.simps [simp del]

definition int_str :: "int \<Rightarrow> string" where
  "int_str i = (if i < 0 then ''-'' @ nat_str (nat (- i)) else nat_str (nat i))"

text \<open>
  \<open>JNum n\<close> writes the number \<open>n\<close> for an integer literal of the program or of a
  sample (\<open>50\<close>, \<open>1\<close>, \<open>404\<close>): an integer of magnitude below \<open>2^53\<close> prints as its
  decimal numeral.
\<close>

definition JNum :: "int \<Rightarrow> json" where
  "JNum n = JNumber (int_str n)"

definition nl :: string where
  "nl = [CHR 0x0A]"

definition dquote :: char where
  "dquote = CHR 0x22"

definition backslash :: char where
  "backslash = CHR 0x5C"

text \<open>\<open>typeof v\<close>.\<close>

fun typeof :: "json \<Rightarrow> string" where
  "typeof (JStr s) = ''string''"
| "typeof (JNumber t) = ''number''"
| "typeof (JBool b) = ''boolean''"
| "typeof JNull = ''object''"
| "typeof (JArr xs) = ''object''"
| "typeof (JObj kvs) = ''object''"

text \<open>
  Truthiness (\<open>ToBoolean\<close>), of a value and of a property read. The falsy numbers are
  the zeros and \<open>NaN\<close>.
\<close>

fun truthy :: "json \<Rightarrow> bool" where
  "truthy JNull = False"
| "truthy (JBool b) = b"
| "truthy (JNumber t) = (t \<noteq> ''0'' \<and> t \<noteq> ''NaN'')"
| "truthy (JStr s) = (s \<noteq> [])"
| "truthy (JArr xs) = True"
| "truthy (JObj kvs) = True"

fun truthy_opt :: "json option \<Rightarrow> bool" where
  "truthy_opt None = False"
| "truthy_opt (Some v) = truthy v"

fun isArray :: "json \<Rightarrow> bool" where
  "isArray (JArr xs) = True"
| "isArray v = False"

text \<open>
  \<open>v.k\<close> for the property names the program reads (\<open>error\<close>, \<open>data\<close> and the
  tools' parameter names): none of them is defined by a prototype, so the read finds an
  own property of an object or nothing.
\<close>

fun get_prop :: "json \<Rightarrow> string \<Rightarrow> json option" where
  "get_prop (JObj kvs) k = map_of kvs k"
| "get_prop v k = None"

text \<open>
  \<open>k in o\<close> for a plain object: true for an own property and for every property
  inherited from \<open>Object.prototype\<close>.
\<close>

definition Object_prototype_keys :: "string list" where
  "Object_prototype_keys =
     [''constructor'', ''__defineGetter__'', ''__defineSetter__'', ''hasOwnProperty'',
      ''__lookupGetter__'', ''__lookupSetter__'', ''isPrototypeOf'',
      ''propertyIsEnumerable'', ''toString'', ''valueOf'', ''__proto__'',
      ''toLocaleString'']"

definition js_in :: "string \<Rightarrow> obj \<Rightarrow> bool" where
  "js_in k a = (k \<in> set (map fst a) \<or> k \<in> set Object_prototype_keys)"

subsection \<open>Conversion to string\<close>

text \<open>
  \<open>ToString\<close>, as a template literal, \<open>String(v)\<close> and \<open>Array.prototype.join\<close>
  apply it. An object is converted by its \<open>toString\<close> method: the inherited one
  gives \<open>[object Object]\<close>; an own \<open>toString\<close> property of a JSON object is never
  callable, and then the conversion throws a TypeError (\<open>None\<close>). An array joins the
  conversions of its elements with commas, \<open>null\<close> elements giving the empty string.
\<close>

fun to_string :: "json \<Rightarrow> string option"
  and join_elems :: "json list \<Rightarrow> string option" where
  "to_string JNull = Some ''null''"
| "to_string (JBool b) = Some (if b then ''true'' else ''false'')"
| "to_string (JNumber t) = Some t"
| "to_string (JStr s) = Some s"
| "to_string (JArr xs) = join_elems xs"
| "to_string (JObj kvs) =
     (if ''toString'' \<in> set (map fst kvs) then None else Some ''[object Object]'')"
| "join_elems [] = Some []"
| "join_elems (x # xs) =
     (case (if x = JNull then Some [] else to_string x) of
        None \<Rightarrow> None
      | Some s \<Rightarrow>
          (if xs = [] then Some s
           else (case join_elems xs of None \<Rightarrow> None | Some t \<Rightarrow> Some (s @ '','' @ t))))"

text \<open>A template literal over a property read: \<open>undefined\<close> prints as such.\<close>

fun template :: "json option \<Rightarrow> string option" where
  "template None = Some ''undefined''"
| "template (Some v) = to_string v"

definition cannot_convert :: string where
  "cannot_convert = ''Cannot convert object to primitive value''"

subsection \<open>JSON.stringify\<close>

definition hex_lower :: "nat \<Rightarrow> char" where
  "hex_lower d = ''0123456789abcdef'' ! d"

text \<open>\<open>QuoteJSONString\<close>: the escapes of a string literal.\<close>

definition escape_char :: "char \<Rightarrow> string" where
  "escape_char c =
     (if c = dquote then [backslash, dquote]
      else if c = backslash then [backslash, backslash]
      else if c = CHR 0x08 then [backslash, CHR ''b'']
      else if c = CHR 0x09 then [backslash, CHR ''t'']
      else if c = CHR 0x0A then [backslash, CHR ''n'']
      else if c = CHR 0x0C then [backslash, CHR ''f'']
      else if c = CHR 0x0D then [backslash, CHR ''r'']
      else if (of_char c :: nat) < 32
        then [backslash, CHR ''u'', CHR ''0'', CHR ''0'',
              hex_lower (of_char c div 16), hex_lower (of_char c mod 16)]
      else [c])"

definition quote :: "string \<Rightarrow> string" where
  "quote s = [dquote] @ concat (map escape_char s) @ [dquote]"

fun join_with :: "string \<Rightarrow> string list \<Rightarrow> string" where
  "join_with sep [] = []"
| "join_with sep [x] = x"
| "join_with sep (x # y # ys) = x @ sep @ join_with sep (y # ys)"

text \<open>
  \<open>SerializeJSONProperty\<close> with the gap \<open>gap\<close> at the indentation \<open>ind\<close>. A JSON
  value has no callable \<open>toJSON\<close> and no property that is skipped; a finite number
  prints as \<open>ToString\<close> prints it, any other as \<open>null\<close>.
\<close>

definition wrap_items :: "string \<Rightarrow> string \<Rightarrow> string \<Rightarrow> string \<Rightarrow> string list \<Rightarrow> string" where
  "wrap_items opening closing gap ind items =
     (if items = [] then opening @ closing
      else if gap = [] then opening @ join_with '','' items @ closing
      else opening @ nl @ (ind @ gap) @ join_with ('','' @ nl @ ind @ gap) items
           @ nl @ ind @ closing)"

fun serialize :: "string \<Rightarrow> string \<Rightarrow> json \<Rightarrow> string"
  and serialize_elems :: "string \<Rightarrow> string \<Rightarrow> json list \<Rightarrow> string list"
  and serialize_members :: "string \<Rightarrow> string \<Rightarrow> (string \<times> json) list \<Rightarrow> string list" where
  "serialize gap ind JNull = ''null''"
| "serialize gap ind (JBool b) = (if b then ''true'' else ''false'')"
| "serialize gap ind (JNumber t) =
     (if t = ''NaN'' \<or> t = ''Infinity'' \<or> t = ''-Infinity'' then ''null'' else t)"
| "serialize gap ind (JStr s) = quote s"
| "serialize gap ind (JArr xs) =
     wrap_items ''['' '']'' gap ind (serialize_elems gap (ind @ gap) xs)"
| "serialize gap ind (JObj kvs) =
     wrap_items ''{'' ''}'' gap ind (serialize_members gap (ind @ gap) kvs)"
| "serialize_elems gap ind [] = []"
| "serialize_elems gap ind (x # xs) = serialize gap ind x # serialize_elems gap ind xs"
| "serialize_members gap ind [] = []"
| "serialize_members gap ind ((k, v) # kvs) =
     (quote k @ '':'' @ (if gap = [] then [] else '' '') @ serialize gap ind v)
       # serialize_members gap ind kvs"

text \<open>\<open>JSON.stringify(v)\<close> and \<open>JSON.stringify(v, null, 2)\<close>.\<close>

definition stringify :: "json \<Rightarrow> string" where
  "stringify v = serialize [] [] v"

definition stringify2 :: "json \<Rightarrow> string" where
  "stringify2 v = serialize ''  '' [] v"

section \<open>The dispatcher (mcpServer.js)\<close>

text \<open>
  Protocol faults are what the request handler throws: an \<open>McpError\<close> with its code and
  the message given to its constructor, or an exception that is no \<open>McpError\<close>. The
  SDK's class puts \<open>MCP error\<close> and the code's number in front of the constructor's
  message; what that message includes, the fault's message includes.
\<close>

datatype error_code = MethodNotFound | InvalidParams | InternalError

datatype fault = McpError error_code string | TypeError string

record content_item =
  item_type :: string
  item_text :: string

record metadata =
  toolName :: string
  resultType :: string
  hasData :: json
  timestamp :: string

text \<open>The response of a call; an absent key is \<open>None\<close>.\<close>

record envelope =
  content :: "content_item list"
  isError :: "bool option"
  meta :: "metadata option"

text \<open>
  A tool: \<open>definition.function.name\<close>, \<open>.description\<close>, \<open>.parameters.required\<close>
  (absent: \<open>None\<close>) and \<open>function\<close>, which returns a value or throws an error with a
  message (\<open>Inl\<close>). The argument bag is \<open>request.params.arguments\<close>, which a request
  may leave out (\<open>None\<close>).
\<close>

record tool =
  tool_name :: string
  description :: string
  required :: "string list option"
  tool_function :: "obj option \<Rightarrow> string + json"

definition in_undefined :: "string \<Rightarrow> string" where
  "in_undefined r =
     ''Cannot use '' @ [CHR 0x27] @ ''in'' @ [CHR 0x27] @ '' operator to search for ''
       @ [CHR 0x27] @ r @ [CHR 0x27] @ '' in undefined''"

text \<open>The loop over \<open>requiredParameters\<close>: the first name that is not \<open>in args\<close> throws.\<close>

fun check_required :: "string list \<Rightarrow> obj option \<Rightarrow> fault option" where
  "check_required [] args = None"
| "check_required (r # rs) None = Some (TypeError (in_undefined r))"
| "check_required (r # rs) (Some a) =
     (if js_in r a then check_required rs (Some a)
      else Some (McpError InvalidParams (''Missing required parameter: '' @ r)))"

definition found_prefix :: "nat \<Rightarrow> string" where
  "found_prefix n = ''Found '' @ nat_str n @ '' items:'' @ nl"

text \<open>\<open>formattedResult\<close>; the last equation is \<open>String(result)\<close> for a number, a boolean and \<open>null\<close>.\<close>

fun formatResult :: "json \<Rightarrow> string" where
  "formatResult (JStr s) = s"
| "formatResult (JArr xs) = found_prefix (length xs) @ stringify2 (JArr xs)"
| "formatResult (JObj kvs) =
     (case map_of kvs ''data'' of
        Some (JArr d) \<Rightarrow> found_prefix (length d) @ stringify2 (JObj kvs)
      | _ \<Rightarrow> stringify2 (JObj kvs))"
| "formatResult v = (case to_string v of Some s \<Rightarrow> s | None \<Rightarrow> [])"

text \<open>
  \<open>result && typeof result === 'object' && (result.data || Array.isArray(result))\<close>: the
  value of the expression, which \<open>&&\<close> and \<open>||\<close> take from their operands.
\<close>

definition has_data :: "json \<Rightarrow> json" where
  "has_data result =
     (if \<not> truthy result then result
      else if typeof result \<noteq> ''object'' then JBool False
      else (case get_prop result ''data'' of
              Some d \<Rightarrow> if truthy d then d else JBool (isArray result)
            | None \<Rightarrow> JBool (isArray result)))"

text \<open>
  The body of the \<open>try\<close> once the operation has returned \<open>result\<close>. The template
  literal of the error branch can throw; the \<open>catch\<close> turns that into an InternalError.
\<close>

definition respond :: "string \<Rightarrow> string \<Rightarrow> json \<Rightarrow> fault + envelope" where
  "respond now name result =
     (if truthy result \<and> typeof result = ''object'' \<and> truthy_opt (get_prop result ''error'')
      then (case template (get_prop result ''error'') of
              None \<Rightarrow> Inl (McpError InternalError (''API error: '' @ cannot_convert))
            | Some msg \<Rightarrow>
                Inr \<lparr>content = [\<lparr>item_type = ''text'', item_text = ''Error: '' @ msg\<rparr>],
                     isError = Some True, meta = None\<rparr>)
      else Inr \<lparr>content = [\<lparr>item_type = ''text'', item_text = formatResult result\<rparr>],
                isError = None,
                meta = Some \<lparr>toolName = name, resultType = typeof result,
                              hasData = has_data result, timestamp = now\<rparr>\<rparr>)"

text \<open>
  The handler of \<open>CallToolRequestSchema\<close>. \<open>now\<close> is \<open>new Date().toISOString()\<close> at
  the time of the call.
\<close>

definition callTool :: "tool list \<Rightarrow> string \<Rightarrow> string \<Rightarrow> obj option \<Rightarrow> fault + envelope" where
  "callTool tools now name args =
     (case find (\<lambda>t. tool_name t = name) tools of
        None \<Rightarrow> Inl (McpError MethodNotFound (''Unknown tool: '' @ name))
      | Some t \<Rightarrow>
          (case check_required (case required t of None \<Rightarrow> [] | Some rs \<Rightarrow> rs) args of
             Some f \<Rightarrow> Inl f
           | None \<Rightarrow>
               (case tool_function t args of
                  Inl msg \<Rightarrow> Inl (McpError InternalError (''API error: '' @ msg))
                | Inr result \<Rightarrow> respond now name result)))"

section \<open>The upstream API as the tools see it\<close>

text \<open>
  A request of \<open>fetch\<close> and its response. \<open>body_json\<close> is what \<open>JSON.parse\<close> makes
  of the body: the value, or the message of the SyntaxError it throws (\<open>Inl\<close>).
  \<open>fetch\<close> itself either resolves or rejects with an error message. The environment
  also holds the two variables of \<open>process.env\<close> the tools read.
\<close>

record request =
  url :: string
  http_method :: string
  headers :: "(string \<times> string option) list"

record response =
  status :: nat
  statusText :: string
  body :: string
  body_json :: "string + json"

record environment =
  BIGCOMMERCE_API_KEY :: "string option"
  BIGCOMMERCE_STORE_HASH :: "string option"
  fetch :: "request \<Rightarrow> string + response"

definition try_bind :: "string + 'a \<Rightarrow> ('a \<Rightarrow> string + 'b) \<Rightarrow> string + 'b" where
  "try_bind x f = (case x of Inl m \<Rightarrow> Inl m | Inr v \<Rightarrow> f v)"

subsection \<open>String methods\<close>

definition is_space :: "char \<Rightarrow> bool" where
  "is_space c = (c \<in> set [CHR 0x09, CHR 0x0A, CHR 0x0B, CHR 0x0C, CHR 0x0D, CHR 0x20, CHR 0xA0])"

definition trim :: "string \<Rightarrow> string" where
  "trim s = rev (dropWhile is_space (rev (dropWhile is_space s)))"

fun startsWith :: "string \<Rightarrow> string \<Rightarrow> bool" where
  "startsWith s [] = True"
| "startsWith [] (p # ps) = False"
| "startsWith (c # cs) (p # ps) = (if c = p then startsWith cs ps else False)"

fun str_includes :: "string \<Rightarrow> string \<Rightarrow> bool" where
  "str_includes [] p = (p = [])"
| "str_includes (c # cs) p = (startsWith (c # cs) p \<or> str_includes cs p)"

text \<open>
  \<open>responseText.match(/<title>(.*?)<\/title>/i)\<close>: the first group of the leftmost
  match. The letters match in either case, the group is the shortest run without a line
  terminator that reaches a closing tag.
\<close>

definition lower :: "char \<Rightarrow> char" where
  "lower c =
     (case map_of (zip ''ABCDEFGHIJKLMNOPQRSTUVWXYZ'' ''abcdefghijklmnopqrstuvwxyz'') c of
        Some l \<Rightarrow> l
      | None \<Rightarrow> c)"

fun startsWith_ci :: "string \<Rightarrow> string \<Rightarrow> bool" where
  "startsWith_ci s [] = True"
| "startsWith_ci [] (p # ps) = False"
| "startsWith_ci (c # cs) (p # ps) = (if lower c = lower p then startsWith_ci cs ps else False)"

fun title_text :: "string \<Rightarrow> string \<Rightarrow> string option" where
  "title_text acc [] = None"
| "title_text acc (c # cs) =
     (if startsWith_ci (c # cs) ''</title>'' then Some (rev acc)
      else if c = CHR 0x0A \<or> c = CHR 0x0D then None
      else title_text (c # acc) cs)"

fun title_match :: "string \<Rightarrow> string option" where
  "title_match [] = None"
| "title_match (c # cs) =
     (if startsWith_ci (c # cs) ''<title>''
      then (case title_text [] (drop 7 (c # cs)) of
              Some t \<Rightarrow> Some t
            | None \<Rightarrow> title_match cs)
      else title_match cs)"

subsection \<open>URLSearchParams\<close>

type_synonym params = "(string \<times> string) list"

definition hex_upper :: "nat \<Rightarrow> char" where
  "hex_upper d = ''0123456789ABCDEF'' ! d"

definition percent :: "nat \<Rightarrow> string" where
  "percent b = [CHR ''%'', hex_upper (b div 16), hex_upper (b mod 16)]"

definition utf8 :: "char \<Rightarrow> nat list" where
  "utf8 c = (if (of_char c :: nat) < 128 then [of_char c]
             else [192 + of_char c div 64, 128 + of_char c mod 64])"

definition form_plain :: "char \<Rightarrow> bool" where
  "form_plain c =
     (c \<in> set ''*-._0123456789ABCDEFGHIJKLMNOPQRSTUVWXYZabcdefghijklmnopqrstuvwxyz'')"

definition form_encode :: "string \<Rightarrow> string" where
  "form_encode s =
     concat (map (\<lambda>c. if c = CHR '' '' then ''+''
                        else if form_plain c then [c]
                        else concat (map percent (utf8 c))) s)"

text \<open>\<open>queryParams.toString()\<close>.\<close>

definition query_string :: "params \<Rightarrow> string" where
  "query_string q = join_with ''&'' (map (\<lambda>(k, v). form_encode k @ ''='' @ form_encode v) q)"

text \<open>
  One line \<open>if (x) queryParams.append(key, x.toString())\<close> or
  \<open>if (x) queryParams.append(key, x)\<close>: a falsy or absent \<open>x\<close> appends nothing, a truthy
  one is converted to a string, by its own \<open>toString\<close> method or by \<open>append\<close>, and the
  conversion throws where the value has none.
\<close>

datatype conv = MethodToString | Plain

definition convert :: "conv \<Rightarrow> string \<Rightarrow> json \<Rightarrow> string + string" where
  "convert c arg v =
     (case to_string v of
        Some s \<Rightarrow> Inr s
      | None \<Rightarrow>
          (if c = MethodToString \<and> get_prop v ''toString'' \<noteq> None
           then Inl (arg @ ''.toString is not a function'')
           else Inl cannot_convert))"

fun append_if :: "params \<Rightarrow> string \<Rightarrow> string \<Rightarrow> conv \<Rightarrow> json option \<Rightarrow> string + params" where
  "append_if q arg key c None = Inr q"
| "append_if q arg key c (Some v) =
     (if truthy v
      then (case convert c arg v of Inl m \<Rightarrow> Inl m | Inr s \<Rightarrow> Inr (q @ [(key, s)]))
      else Inr q)"

text \<open>
  The lines in order, over a table of (argument, query key, conversion); the first
  conversion that throws ends the construction.
\<close>

fun build_query :: "(string \<times> string \<times> conv) list \<Rightarrow> (string \<Rightarrow> json option) \<Rightarrow> params
                      \<Rightarrow> string + params" where
  "build_query [] look q = Inr q"
| "build_query ((arg, key, c) # rest) look q =
     (case append_if q arg key c (look arg) of
        Inl m \<Rightarrow> Inl m
      | Inr q' \<Rightarrow> build_query rest look q')"

text \<open>
  The destructured parameter \<open>k\<close> of \<open>executeFunction\<close>: the bag defaults to \<open>{}\<close>,
  and \<open>limit = 50\<close>, \<open>page = 1\<close> stand in where the bag has no such property.
\<close>

definition destructure :: "obj option \<Rightarrow> string \<Rightarrow> json option" where
  "destructure args k =
     (case map_of (case args of None \<Rightarrow> [] | Some a \<Rightarrow> a) k of
        Some v \<Rightarrow> Some v
      | None \<Rightarrow>
          (if k = ''limit'' then Some (JNum 50)
           else if k = ''page'' then Some (JNum 1)
           else None))"

definition baseUrl :: string where
  "baseUrl = ''https://api.bigcommerce.com/stores''"

text \<open>\<open>store_Hash || process.env.BIGCOMMERCE_STORE_HASH\<close>.\<close>

definition storeHash :: "environment \<Rightarrow> obj option \<Rightarrow> json option" where
  "storeHash env args =
     (if truthy_opt (destructure args ''store_Hash'') then destructure args ''store_Hash''
      else map_option JStr (BIGCOMMERCE_STORE_HASH env))"

definition request_headers :: "environment \<Rightarrow> (string \<times> string option) list" where
  "request_headers env =
     [(''X-Auth-Token'', BIGCOMMERCE_API_KEY env),
      (''Content-Type'', Some ''application/json''),
      (''Accept'', Some ''application/json'')]"

definition get_request :: "environment \<Rightarrow> string \<Rightarrow> request" where
  "get_request env u = \<lparr>url = u, http_method = ''GET'', headers = request_headers env\<rparr>"

definition ok :: "response \<Rightarrow> bool" where
  "ok r = (200 \<le> status r \<and> status r \<le> 299)"

definition empty_result :: json where
  "empty_result = JObj [(''data'', JArr []), (''meta'', JObj [(''total'', JNum 0)])]"

text \<open>
  \<open>response.text()\<close> after \<open>response.json()\<close> has read the body and failed to parse
  it: the body is used up and the second read rejects with a TypeError, except for a
  response that has no body at all (a null body status), which reads as the empty string.
\<close>

definition body_unusable :: string where
  "body_unusable = ''Body is unusable: Body has already been read''"

definition text_again :: "response \<Rightarrow> string + string" where
  "text_again r =
     (if status r \<in> set [101, 103, 204, 205, 304] then Inr [] else Inl body_unusable)"

text \<open>The catch of each \<open>executeFunction\<close>; every error thrown in it is an \<open>Error\<close>.\<close>

definition failure :: "string \<Rightarrow> string \<Rightarrow> json" where
  "failure what m =
     JObj [(''error'', JStr (''An error occurred while getting all '' @ what @ '': '' @ m))]"

definition caught :: "string \<Rightarrow> string + json \<Rightarrow> json" where
  "caught what x = (case x of Inl m \<Rightarrow> failure what m | Inr v \<Rightarrow> v)"

section \<open>The tools\<close>

subsection \<open>get-all-products.js\<close>

definition products_request :: "environment \<Rightarrow> obj option \<Rightarrow> string + request" where
  "products_request env args =
     (case template (storeHash env args) of
        None \<Rightarrow> Inl cannot_convert
      | Some sh \<Rightarrow> Inr (get_request env (baseUrl @ ''/'' @ sh @ ''/v3/catalog/products'')))"

text \<open>
  What get-all-products.js and get-all-orders.js do with the response, line for line the
  same in both files.
\<close>

definition read_response :: "response \<Rightarrow> string + json" where
  "read_response r =
     (if \<not> ok r then
        (case body_json r of
           Inl e \<Rightarrow>
             try_bind (text_again r) (\<lambda>errorText.
               Inl (''HTTP '' @ nat_str (status r) @ '': ''
                     @ (if errorText \<noteq> [] then errorText else statusText r)))
         | Inr errorData \<Rightarrow> Inl (stringify errorData))
      else if body r = [] \<or> trim (body r) = [] then Inr empty_result
      else (case body_json r of
              Inr data \<Rightarrow> Inr data
            | Inl e \<Rightarrow> Inl (''Invalid JSON response: '' @ take 200 (body r) @ ''...'')))"

definition get_all_products :: "environment \<Rightarrow> obj option \<Rightarrow> json" where
  "get_all_products env args =
     caught ''products''
       (try_bind (products_request env args) (\<lambda>rq.
          try_bind (fetch env rq) read_response))"


subsection \<open>get-all-orders.js\<close>

definition orders_fields :: "(string \<times> string \<times> conv) list" where
  "orders_fields =
     [(''customer_id'', ''customer_id'', MethodToString),
      (''email'', ''email'', Plain),
      (''status_id'', ''status_id'', MethodToString),
      (''min_id'', ''min_id'', MethodToString),
      (''max_id'', ''max_id'', MethodToString),
      (''min_total'', ''min_total'', MethodToString),
      (''max_total'', ''max_total'', MethodToString),
      (''min_date_created'', ''min_date_created'', Plain),
      (''max_date_created'', ''max_date_created'', Plain),
      (''min_date_modified'', ''min_date_modified'', Plain),
      (''max_date_modified'', ''max_date_modified'', Plain),
      (''channel_id'', ''channel_id'', MethodToString),
      (''payment_method'', ''payment_method'', Plain),
      (''cart_id'', ''cart_id'', Plain),
      (''external_order_id'', ''external_order_id'', Plain),
      (''sort'', ''sort'', Plain),
      (''limit'', ''limit'', MethodToString),
      (''page'', ''page'', MethodToString)]"

definition orders_query :: "obj option \<Rightarrow> string + params" where
  "orders_query args = build_query orders_fields (destructure args) []"

definition with_query :: "string \<Rightarrow> params \<Rightarrow> string" where
  "with_query u q = u @ (if query_string q \<noteq> [] then ''?'' @ query_string q else [])"

definition orders_request :: "environment \<Rightarrow> obj option \<Rightarrow> string + request" where
  "orders_request env args =
     try_bind (orders_query args) (\<lambda>q.
       (case template (storeHash env args) of
          None \<Rightarrow> Inl cannot_convert
        | Some sh \<Rightarrow> Inr (get_request env (with_query (baseUrl @ ''/'' @ sh @ ''/v2/orders'') q))))"

definition get_all_orders :: "environment \<Rightarrow> obj option \<Rightarrow> json" where
  "get_all_orders env args =
     caught ''orders''
       (try_bind (orders_request env args) (\<lambda>rq.
          try_bind (fetch env rq) read_response))"


subsection \<open>get-all-customers.js\<close>

definition customers_fields :: "(string \<times> string \<times> conv) list" where
  "customers_fields =
     [(''id'', ''id:in'', Plain),
      (''email'', ''email:in'', Plain),
      (''name'', ''name:in'', Plain),
      (''name_like'', ''name:like'', Plain),
      (''company'', ''company:in'', Plain),
      (''phone'', ''phone:in'', Plain),
      (''customer_group_id'', ''customer_group_id:in'', MethodToString),
      (''registration_ip_address'', ''registration_ip_address:in'', Plain),
      (''date_created'', ''date_created'', Plain),
      (''date_created_min'', ''date_created:min'', Plain),
      (''date_created_max'', ''date_created:max'', Plain),
      (''date_modified'', ''date_modified'', Plain),
      (''date_modified_min'', ''date_modified:min'', Plain),
      (''date_modified_max'', ''date_modified:max'', Plain),
      (''sort'', ''sort'', Plain),
      (''include'', ''include'', Plain),
      (''limit'', ''limit'', MethodToString),
      (''page'', ''page'', MethodToString)]"

definition customers_query :: "obj option \<Rightarrow> string + params" where
  "customers_query args = build_query customers_fields (destructure args) []"

definition customers_request :: "environment \<Rightarrow> obj option \<Rightarrow> string + request" where
  "customers_request env args =
     try_bind (customers_query args) (\<lambda>q.
       (case template (storeHash env args) of
          None \<Rightarrow> Inl cannot_convert
        | Some sh \<Rightarrow> Inr (get_request env (with_query (baseUrl @ ''/'' @ sh @ ''/v3/customers'') q))))"

definition errorDetails :: "string \<Rightarrow> string" where
  "errorDetails responseText =
     (if str_includes responseText ''401'' \<or> str_includes responseText ''Unauthorized''
        then ''Authentication failed - invalid API token''
      else if str_includes responseText ''403'' \<or> str_includes responseText ''Forbidden''
        then ''Access forbidden - check API token permissions''
      else if str_includes responseText ''404'' \<or> str_includes responseText ''Not Found''
        then ''Store not found - check store hash''
      else [])"

definition errorTitle :: "string \<Rightarrow> string" where
  "errorTitle responseText =
     (case title_match responseText of Some t \<Rightarrow> t | None \<Rightarrow> ''Unknown error'')"

definition read_customers :: "response \<Rightarrow> string + json" where
  "read_customers r =
     (if \<not> ok r then Inl (''HTTP '' @ nat_str (status r) @ '': '' @ body r)
      else if startsWith (trim (body r)) ''<''
        then Inl (''BigCommerce API Error: '' @ errorTitle (body r) @ ''. ''
                   @ errorDetails (body r))
      else body_json r)"

definition get_all_customers :: "environment \<Rightarrow> obj option \<Rightarrow> json" where
  "get_all_customers env args =
     caught ''customers''
       (try_bind (customers_request env args) (\<lambda>rq.
          try_bind (fetch env rq) read_customers))"


section \<open>Starting the process (run)\<close>

text \<open>
  \<open>run\<close> reads the flags, awaits \<open>discoverTools\<close> (which resolves with the tools or
  throws) and sets one transport up; \<open>starts t\<close> tells whether the setup of \<open>t\<close> returns
  or throws. The outcome is the process exit, a transport serving a tool list, or \<open>run\<close>
  itself rejecting, which \<open>run().catch(console.error)\<close> only logs.
\<close>

datatype transport = Stdio | SSE | StreamableHttp

datatype 't outcome = Exited nat | Serving transport "'t list" | Rejected | Killed

definition recover :: "bool \<Rightarrow> bool \<Rightarrow> (transport \<Rightarrow> bool) \<Rightarrow> 't outcome" where
  "recover isStreamableHttp isSSE starts =
     (if isStreamableHttp \<or> isSSE then
        (if isStreamableHttp
         then (if starts StreamableHttp then Serving StreamableHttp [] else Rejected)
         else (if starts SSE then Serving SSE [] else Rejected))
      else Exited 1)"

definition run :: "string list \<Rightarrow> string + 't list \<Rightarrow> (transport \<Rightarrow> bool) \<Rightarrow> 't outcome" where
  "run args discovered starts =
     (let isStreamableHttp = (''--streamable-http'' \<in> set args);
          isSSE = (''--sse'' \<in> set args)
      in case discovered of
           Inl e \<Rightarrow> recover isStreamableHttp isSSE starts
         | Inr tools \<Rightarrow>
             if isStreamableHttp \<and> isSSE then Exited 1
             else (let t = (if isStreamableHttp then StreamableHttp
                            else if isSSE then SSE else Stdio)
                   in if starts t then Serving t tools
                      else recover isStreamableHttp isSSE starts))"

text \<open>
  An interrupt signal: the pipe binding has a handler that closes the server and exits
  with 0; the other bindings install none, and the signal ends the process.
\<close>

fun sigint :: "'t outcome \<Rightarrow> 't outcome" where
  "sigint (Serving Stdio tools) = Exited 0"
| "sigint (Serving t tools) = Killed"
| "sigint out = out"

section \<open>Observations and sample inputs\<close>

text \<open>
  The text of a response whose content is one text item: of a response without an
  \<open>isError\<close> key, and of one whose \<open>isError\<close> is \<open>true\<close>.
\<close>

definition success_text :: "fault + envelope \<Rightarrow> string option" where
  "success_text r =
     (case r of
        Inl f \<Rightarrow> None
      | Inr e \<Rightarrow>
          (case content e of
             [i] \<Rightarrow> if isError e = None \<and> item_type i = ''text'' then Some (item_text i) else None
           | _ \<Rightarrow> None))"

definition error_text :: "fault + envelope \<Rightarrow> string option" where
  "error_text r =
     (case r of
        Inl f \<Rightarrow> None
      | Inr e \<Rightarrow>
          (case content e of
             [i] \<Rightarrow> if isError e = Some True \<and> item_type i = ''text'' then Some (item_text i) else None
           | _ \<Rightarrow> None))"

text \<open>A tool whose operation ignores its arguments and returns, or throws, a fixed value.\<close>

definition mock_tool :: "string \<Rightarrow> string list \<Rightarrow> string + json \<Rightarrow> tool" where
  "mock_tool n rs r =
     \<lparr>tool_name = n, description = [], required = Some rs, tool_function = (\<lambda>args. r)\<rparr>"

definition sample_time :: string where
  "sample_time = ''2024-01-01T00:00:00.000Z''"

text \<open>The payload \<open>{"data":[{"id":1}]}\<close>.\<close>

definition sample_payload :: json where
  "sample_payload = JObj [(''data'', JArr [JObj [(''id'', JNum 1)]])]"

text \<open>An upstream that answers every request with the response \<open>r\<close>.\<close>

definition upstream :: "response \<Rightarrow> environment" where
  "upstream r =
     \<lparr>BIGCOMMERCE_API_KEY = Some ''key'', BIGCOMMERCE_STORE_HASH = Some ''abc'',
      fetch = (\<lambda>rq. Inr r)\<rparr>"

definition empty_200 :: response where
  "empty_200 =
     \<lparr>status = 200, statusText = ''OK'', body = [],
      body_json = Inl ''Unexpected end of JSON input''\<rparr>"




section \<open>Numerals and substrings\<close>


lemma int_str_defaults:
  "int_str 50 = ''50''" "int_str 1 = ''1''"
  by (simp_all add: int_str_def nat_str.simps digit_char_def)

lemma startsWith_append: "startsWith (p @ s) p"
  by (induction p) simp_all

lemma str_includes_prefix: "str_includes (p @ s) p"
proof (cases "p @ s")
  case Nil
  then show ?thesis by simp
next
  case (Cons c cs)
  have "startsWith (p @ s) p" by (rule startsWith_append)
  with Cons have "startsWith (c # cs) p" by simp
  then have "str_includes (c # cs) p" by simp
  with Cons show ?thesis by simp
qed

lemma str_includes_append_left: "str_includes s p \<Longrightarrow> str_includes (a @ s) p"
  by (induction a) simp_all

lemma str_includes_middle: "str_includes (a @ p @ b) p"
  by (rule str_includes_append_left) (rule str_includes_prefix)

section \<open>The dispatcher's responses\<close>

lemma callTool_returned:
  assumes "find (\<lambda>t. tool_name t = name) tools = Some t"
    and "check_required (case required t of None \<Rightarrow> [] | Some rs \<Rightarrow> rs) args = None"
    and "tool_function t args = Inr result"
  shows "callTool tools now name args = respond now name result"
  using assms by (simp add: callTool_def)

lemma respond_success:
  assumes "\<not> (truthy result \<and> typeof result = ''object'' \<and> truthy_opt (get_prop result ''error''))"
  shows "respond now name result =
           Inr \<lparr>content = [\<lparr>item_type = ''text'', item_text = formatResult result\<rparr>],
                isError = None,
                meta = Some \<lparr>toolName = name, resultType = typeof result,
                              hasData = has_data result, timestamp = now\<rparr>\<rparr>"
  by (simp only: respond_def assms if_False)

lemma success_text_respond:
  assumes "\<not> (truthy result \<and> typeof result = ''object'' \<and> truthy_opt (get_prop result ''error''))"
  shows "success_text (respond now name result) = Some (formatResult result)"
  by (simp add: respond_success [OF assms] success_text_def)

lemma sample_payload_text:
  "stringify2 sample_payload
     = ''{\<newline>  \"data\": [\<newline>    {\<newline>      \"id\": 1\<newline>    }\<newline>  ]\<newline>}''"
  by (simp add: stringify2_def sample_payload_def wrap_items_def quote_def escape_char_def
        dquote_def backslash_def nl_def JNum_def int_str_def nat_str.simps digit_char_def)

text \<open>
  C1. A tool with requiredParameters \<open>["store_Hash"]\<close>, called with
  \<open>{store_Hash: "abc"}\<close>, whose operation returns \<open>{"data":[{"id":1}]}\<close>: the sole
  content text is \<open>"Found 1 items:\n"\<close> followed by the payload's JSON with 2-space
  indentation and there is no \<open>isError\<close> key, as the claim says; but \<open>_meta.hasData\<close>
  is the payload's \<open>data\<close> array \<open>[{"id":1}]\<close> (the value \<open>||\<close> takes from
  \<open>result.data\<close>), not the boolean \<open>true\<close>.
\<close>

theorem roundtrip_hasData_is_the_data_array:
  "callTool [mock_tool ''t'' [''store_Hash''] (Inr sample_payload)] now ''t''
       (Some [(''store_Hash'', JStr ''abc'')])
     = Inr \<lparr>content = [\<lparr>item_type = ''text'',
                         item_text = ''Found 1 items:'' @ nl @ stringify2 sample_payload\<rparr>],
            isError = None,
            meta = Some \<lparr>toolName = ''t'', resultType = ''object'',
                          hasData = JArr [JObj [(''id'', JNum 1)]], timestamp = now\<rparr>\<rparr>"
  by (simp add: callTool_def mock_tool_def js_in_def respond_def has_data_def found_prefix_def
        nat_str.simps digit_char_def sample_payload_def)

text \<open>
  C5 as stated fails: the result \<open>{error: 404, data: [1]}\<close> exposes no \<open>error\<close> string
  field, so it is no Failure, and its \<open>data\<close> is an array of length 1; yet the response
  is not \<open>"Found 1 items:\n"\<close> and the pretty-printed object but the response with
  \<open>isError = true\<close> and the text \<open>Error: 404\<close>.
\<close>

theorem numeric_error_is_not_formatted:
  "callTool [mock_tool ''t'' [] (Inr (JObj [(''error'', JNum 404), (''data'', JArr [JNum 1])]))]
       sample_time ''t'' (Some [])
     = Inr \<lparr>content = [\<lparr>item_type = ''text'', item_text = ''Error: 404''\<rparr>],
            isError = Some True, meta = None\<rparr>"
  by (simp add: callTool_def mock_tool_def respond_def JNum_def int_str_def nat_str.simps
        digit_char_def)

text \<open>
  C5, amended. When a call reaches the operation and the operation returns a result that
  is not an object with a truthy \<open>error\<close> property (of any type), the response has no
  \<open>isError\<close> key and its text follows the payload's shape: a string is used verbatim;
  an array of length N gives \<open>"Found N items:\n"\<close> and the pretty-printed array; an
  object whose \<open>data\<close> is an array of length N gives the same prefix and the
  pretty-printed whole object; any other object gives its pretty-printed JSON; a number,
  a boolean and \<open>null\<close> give their string conversion.
\<close>

theorem formatting_by_shape:
  assumes "find (\<lambda>t. tool_name t = name) tools = Some t"
    and "check_required (case required t of None \<Rightarrow> [] | Some rs \<Rightarrow> rs) args = None"
    and "tool_function t args = Inr result"
  shows "(result = JStr s \<longrightarrow> success_text (callTool tools now name args) = Some s)
       \<and> (result = JArr xs \<longrightarrow> success_text (callTool tools now name args)
             = Some (''Found '' @ nat_str (length xs) @ '' items:'' @ nl @ stringify2 (JArr xs)))
       \<and> (result = JObj kvs \<and> \<not> truthy_opt (map_of kvs ''error'') \<and> map_of kvs ''data'' = Some (JArr d)
            \<longrightarrow> success_text (callTool tools now name args)
             = Some (''Found '' @ nat_str (length d) @ '' items:'' @ nl @ stringify2 (JObj kvs)))
       \<and> (result = JObj kvs \<and> \<not> truthy_opt (map_of kvs ''error'')
            \<and> (case map_of kvs ''data'' of None \<Rightarrow> True | Some v \<Rightarrow> \<not> isArray v)
            \<longrightarrow> success_text (callTool tools now name args) = Some (stringify2 (JObj kvs)))
       \<and> (result = JNumber n \<longrightarrow> success_text (callTool tools now name args) = Some n)
       \<and> (result = JBool b \<longrightarrow> success_text (callTool tools now name args)
             = Some (if b then ''true'' else ''false''))
       \<and> (result = JNull \<longrightarrow> success_text (callTool tools now name args) = Some ''null'')"
proof -
  have call: "callTool tools now name args = respond now name result"
    by (rule callTool_returned [OF assms])
  have str: "result = JStr s \<longrightarrow> success_text (respond now name result) = Some s"
    by (simp add: success_text_respond)
  have arr: "result = JArr xs \<longrightarrow> success_text (respond now name result)
      = Some (''Found '' @ nat_str (length xs) @ '' items:'' @ nl @ stringify2 (JArr xs))"
    by (simp add: success_text_respond found_prefix_def)
  have dat: "result = JObj kvs \<and> \<not> truthy_opt (map_of kvs ''error'') \<and> map_of kvs ''data'' = Some (JArr d)
      \<longrightarrow> success_text (respond now name result)
        = Some (''Found '' @ nat_str (length d) @ '' items:'' @ nl @ stringify2 (JObj kvs))"
    by (simp add: success_text_respond found_prefix_def)
  have obj: "result = JObj kvs \<and> \<not> truthy_opt (map_of kvs ''error'')
      \<and> (case map_of kvs ''data'' of None \<Rightarrow> True | Some v \<Rightarrow> \<not> isArray v)
      \<longrightarrow> success_text (respond now name result) = Some (stringify2 (JObj kvs))"
    by (auto simp add: success_text_respond split: option.splits json.splits)
  have num: "result = JNumber n \<longrightarrow> success_text (respond now name result) = Some n"
    by (simp add: success_text_respond)
  have bool: "result = JBool b \<longrightarrow> success_text (respond now name result)
      = Some (if b then ''true'' else ''false'')"
    by (simp add: success_text_respond)
  have null: "result = JNull \<longrightarrow> success_text (respond now name result) = Some ''null''"
    by (simp add: success_text_respond)
  show ?thesis
    unfolding call
    by (rule conjI [OF str conjI [OF arr conjI [OF dat conjI [OF obj
          conjI [OF num conjI [OF bool null]]]]]])
qed

text \<open>
  C5 at one payload of each shape, with the texts written out: the indentation by two
  spaces per level, the separators, the empty array and object, and the escapes of a
  quote and of a line feed inside a string.
\<close>

theorem formatting_by_shape_witness:
  "success_text (callTool [mock_tool ''t'' [] (Inr (JStr ''done''))] sample_time ''t'' (Some []))
     = Some ''done''
   \<and> success_text (callTool
         [mock_tool ''t'' []
            (Inr (JArr [JNum (- 7), JNull, JStr (''a\"b'' @ ''\<newline>''), JArr [], JObj [],
                        JArr [JBool True, JNumber ''19.99'']]))]
         sample_time ''t'' (Some []))
     = Some (''Found 6 items:\<newline>[\<newline>  -7,\<newline>  null,\<newline>  \"a'' @ [CHR 0x5C] @ ''\"b''
              @ [CHR 0x5C] @ ''n\",\<newline>  [],\<newline>  {},\<newline>  [\<newline>    true,\<newline>    19.99\<newline>  ]\<newline>]'')
   \<and> success_text (callTool [mock_tool ''t'' [] (Inr sample_payload)] sample_time ''t'' (Some []))
     = Some ''Found 1 items:\<newline>{\<newline>  \"data\": [\<newline>    {\<newline>      \"id\": 1\<newline>    }\<newline>  ]\<newline>}''
   \<and> success_text (callTool
         [mock_tool ''t'' [] (Inr (JObj [(''total'', JNum 3), (''meta'', JObj [(''ok'', JBool False)])]))]
         sample_time ''t'' (Some []))
     = Some ''{\<newline>  \"total\": 3,\<newline>  \"meta\": {\<newline>    \"ok\": false\<newline>  }\<newline>}''
   \<and> success_text (callTool [mock_tool ''t'' [] (Inr (JNumber ''19.99''))] sample_time ''t'' (Some []))
     = Some ''19.99''
   \<and> success_text (callTool [mock_tool ''t'' [] (Inr (JBool False))] sample_time ''t'' (Some []))
     = Some ''false''
   \<and> success_text (callTool [mock_tool ''t'' [] (Inr JNull)] sample_time ''t'' (Some []))
     = Some ''null''"
  using
    formatting_by_shape [where tools = "[mock_tool ''t'' [] (Inr (JStr ''done''))]"
      and name = "''t''" and t = "mock_tool ''t'' [] (Inr (JStr ''done''))" and args = "Some []"
      and result = "JStr ''done''" and s = "''done''" and now = sample_time]
    formatting_by_shape [where tools = "[mock_tool ''t'' []
            (Inr (JArr [JNum (- 7), JNull, JStr (''a\"b'' @ ''\<newline>''), JArr [], JObj [],
                        JArr [JBool True, JNumber ''19.99'']]))]"
      and name = "''t''" and t = "mock_tool ''t'' []
            (Inr (JArr [JNum (- 7), JNull, JStr (''a\"b'' @ ''\<newline>''), JArr [], JObj [],
                        JArr [JBool True, JNumber ''19.99'']]))"
      and args = "Some []"
      and result = "JArr [JNum (- 7), JNull, JStr (''a\"b'' @ ''\<newline>''), JArr [], JObj [],
                          JArr [JBool True, JNumber ''19.99'']]"
      and xs = "[JNum (- 7), JNull, JStr (''a\"b'' @ ''\<newline>''), JArr [], JObj [],
                 JArr [JBool True, JNumber ''19.99'']]"
      and now = sample_time]
    formatting_by_shape [where tools = "[mock_tool ''t'' [] (Inr sample_payload)]"
      and name = "''t''" and t = "mock_tool ''t'' [] (Inr sample_payload)"
      and args = "Some []" and result = sample_payload
      and kvs = "[(''data'', JArr [JObj [(''id'', JNum 1)]])]" and d = "[JObj [(''id'', JNum 1)]]"
      and now = sample_time]
    formatting_by_shape [where tools = "[mock_tool ''t'' []
            (Inr (JObj [(''total'', JNum 3), (''meta'', JObj [(''ok'', JBool False)])]))]"
      and name = "''t''" and t = "mock_tool ''t'' []
            (Inr (JObj [(''total'', JNum 3), (''meta'', JObj [(''ok'', JBool False)])]))"
      and args = "Some []"
      and result = "JObj [(''total'', JNum 3), (''meta'', JObj [(''ok'', JBool False)])]"
      and kvs = "[(''total'', JNum 3), (''meta'', JObj [(''ok'', JBool False)])]"
      and now = sample_time]
    formatting_by_shape [where tools = "[mock_tool ''t'' [] (Inr (JNumber ''19.99''))]"
      and name = "''t''" and t = "mock_tool ''t'' [] (Inr (JNumber ''19.99''))"
      and args = "Some []" and result = "JNumber ''19.99''" and n = "''19.99''"
      and now = sample_time]
    formatting_by_shape [where tools = "[mock_tool ''t'' [] (Inr (JBool False))]"
      and name = "''t''" and t = "mock_tool ''t'' [] (Inr (JBool False))"
      and args = "Some []" and result = "JBool False" and b = False and now = sample_time]
    formatting_by_shape [where tools = "[mock_tool ''t'' [] (Inr JNull)]"
      and name = "''t''" and t = "mock_tool ''t'' [] (Inr JNull)"
      and args = "Some []" and result = JNull and now = sample_time]
  by (simp add: mock_tool_def sample_payload_def stringify2_def wrap_items_def quote_def
        escape_char_def dquote_def backslash_def nl_def JNum_def int_str_def nat_str.simps
        digit_char_def)

text \<open>
  C6 as stated fails: an operation that returns \<open>{error: ""}\<close>, an object with an
  \<open>error\<close> string field, gets a response without \<open>isError\<close> whose text is the
  pretty-printed object.
\<close>

theorem empty_error_string_is_success:
  "callTool [mock_tool ''t'' [] (Inr (JObj [(''error'', JStr [])]))] sample_time ''t'' (Some [])
     = Inr \<lparr>content = [\<lparr>item_type = ''text'',
                         item_text = ''{\<newline>  \"error\": \"\"\<newline>}''\<rparr>],
            isError = None,
            meta = Some \<lparr>toolName = ''t'', resultType = ''object'',
                          hasData = JBool False, timestamp = sample_time\<rparr>\<rparr>"
  by (simp add: callTool_def mock_tool_def respond_def has_data_def stringify2_def
        wrap_items_def quote_def escape_char_def dquote_def backslash_def nl_def)

text \<open>
  C6, amended. For a call that reaches the operation: if the operation returns an object
  whose \<open>error\<close> field is a non-empty string, the call returns a response with
  \<open>isError = true\<close> and the text \<open>"Error: "\<close> plus that message, and raises no
  protocol fault; if the operation throws, the call raises the InternalError fault with
  a message that includes the thrown error's message.
\<close>

theorem fault_channels:
  assumes "find (\<lambda>t. tool_name t = name) tools = Some t"
    and "check_required (case required t of None \<Rightarrow> [] | Some rs \<Rightarrow> rs) args = None"
  shows "(tool_function t args = Inr (JObj kvs) \<and> map_of kvs ''error'' = Some (JStr m) \<and> m \<noteq> []
            \<longrightarrow> callTool tools now name args
                  = Inr \<lparr>content = [\<lparr>item_type = ''text'', item_text = ''Error: '' @ m\<rparr>],
                         isError = Some True, meta = None\<rparr>)
       \<and> (tool_function t args = Inl m
            \<longrightarrow> (\<exists>msg. callTool tools now name args = Inl (McpError InternalError msg)
                  \<and> str_includes msg m))"
proof -
  have returned: "tool_function t args = Inr (JObj kvs) \<and> map_of kvs ''error'' = Some (JStr m) \<and> m \<noteq> []
      \<longrightarrow> callTool tools now name args
            = Inr \<lparr>content = [\<lparr>item_type = ''text'', item_text = ''Error: '' @ m\<rparr>],
                   isError = Some True, meta = None\<rparr>"
    using assms by (simp add: callTool_def respond_def)
  have thrown: "tool_function t args = Inl m
      \<longrightarrow> (\<exists>msg. callTool tools now name args = Inl (McpError InternalError msg)
            \<and> str_includes msg m)"
  proof
    assume "tool_function t args = Inl m"
    with assms have "callTool tools now name args
        = Inl (McpError InternalError (''API error: '' @ m))"
      by (simp add: callTool_def)
    moreover have "str_includes (''API error: '' @ m) m"
      using str_includes_middle [of "''API error: ''" m "[]"] by simp
    ultimately show "\<exists>msg. callTool tools now name args = Inl (McpError InternalError msg)
        \<and> str_includes msg m"
      by blast
  qed
  show ?thesis by (rule conjI [OF returned thrown])
qed

theorem fault_channels_witness:
  "callTool [mock_tool ''t'' [] (Inr (JObj [(''error'', JStr ''upstream down'')]))] sample_time ''t'' (Some [])
     = Inr \<lparr>content = [\<lparr>item_type = ''text'', item_text = ''Error: upstream down''\<rparr>],
            isError = Some True, meta = None\<rparr>
   \<and> (\<exists>msg. callTool [mock_tool ''t'' [] (Inl ''boom'')] sample_time ''t'' (Some [])
               = Inl (McpError InternalError msg)
            \<and> str_includes msg ''boom'')"
  using
    fault_channels [where tools = "[mock_tool ''t'' [] (Inr (JObj [(''error'', JStr ''upstream down'')]))]"
      and name = "''t''" and t = "mock_tool ''t'' [] (Inr (JObj [(''error'', JStr ''upstream down'')]))"
      and args = "Some []" and kvs = "[(''error'', JStr ''upstream down'')]"
      and m = "''upstream down''" and now = sample_time]
    fault_channels [where tools = "[mock_tool ''t'' [] (Inl ''boom'')]"
      and name = "''t''" and t = "mock_tool ''t'' [] (Inl ''boom'')"
      and args = "Some []" and m = "''boom''" and now = sample_time]
  by (simp add: mock_tool_def)

section \<open>Required parameters\<close>

lemma check_required_first:
  "\<forall>p\<in>set pre. js_in p a \<Longrightarrow> \<not> js_in r a \<Longrightarrow>
     check_required (pre @ r # post) (Some a)
       = Some (McpError InvalidParams (''Missing required parameter: '' @ r))"
  by (induction pre) simp_all

lemma check_required_all:
  "\<forall>p\<in>set rs. js_in p a \<Longrightarrow> check_required rs (Some a) = None"
  by (induction rs) simp_all

lemma check_required_keys:
  "map fst a = map fst b \<Longrightarrow> check_required rs (Some a) = check_required rs (Some b)"
  by (induction rs) (simp_all add: js_in_def)

lemma check_required_some_missing:
  "\<exists>p\<in>set rs. \<not> js_in p a \<Longrightarrow>
     \<exists>r\<in>set rs. \<not> js_in r a \<and>
       check_required rs (Some a)
         = Some (McpError InvalidParams (''Missing required parameter: '' @ r))"
proof (induction rs)
  case Nil
  then show ?case by simp
next
  case (Cons x xs)
  show ?case
  proof (cases "js_in x a")
    case True
    with Cons.prems have "\<exists>p\<in>set xs. \<not> js_in p a" by auto
    from Cons.IH [OF this] True show ?thesis by auto
  next
    case False
    then show ?thesis by simp
  qed
qed

text \<open>
  What the loop does with a bag \<open>a\<close>, where a name counts as present when
  \<open>name in a\<close> holds: the call fails with InvalidParams naming the first name of
  \<open>rs\<close>, in declared order, that is not present; any bag with a name that is not present
  fails so; the check looks at the bag's keys only, never at a value; and when every
  required name is present the dispatcher raises no fault of its own, whatever other keys
  the bag holds, and the outcome is the operation's.
\<close>

theorem first_missing_parameter:
  assumes "find (\<lambda>t. tool_name t = name) tools = Some t"
    and "(case required t of None \<Rightarrow> [] | Some ps \<Rightarrow> ps) = rs"
  shows "(rs = pre @ r # post \<and> (\<forall>p\<in>set pre. js_in p a) \<and> \<not> js_in r a
            \<longrightarrow> callTool tools now name (Some a)
                  = Inl (McpError InvalidParams (''Missing required parameter: '' @ r)))
       \<and> ((\<exists>p\<in>set rs. \<not> js_in p a)
            \<longrightarrow> (\<exists>r\<in>set rs. \<not> js_in r a \<and> callTool tools now name (Some a)
                  = Inl (McpError InvalidParams (''Missing required parameter: '' @ r))))
       \<and> (map fst a = map fst b
            \<longrightarrow> check_required rs (Some a) = check_required rs (Some b))
       \<and> ((\<forall>p\<in>set rs. js_in p a)
            \<longrightarrow> callTool tools now name (Some a)
                  = (case tool_function t (Some a) of
                       Inl m \<Rightarrow> Inl (McpError InternalError (''API error: '' @ m))
                     | Inr result \<Rightarrow> respond now name result))"
proof -
  have call: "callTool tools now name (Some a)
      = (case check_required rs (Some a) of
           Some f \<Rightarrow> Inl f
         | None \<Rightarrow>
             (case tool_function t (Some a) of
                Inl m \<Rightarrow> Inl (McpError InternalError (''API error: '' @ m))
              | Inr result \<Rightarrow> respond now name result))"
    using assms by (simp add: callTool_def)
  have first: "rs = pre @ r # post \<and> (\<forall>p\<in>set pre. js_in p a) \<and> \<not> js_in r a
      \<longrightarrow> callTool tools now name (Some a)
            = Inl (McpError InvalidParams (''Missing required parameter: '' @ r))"
    by (simp add: call check_required_first)
  have some: "(\<exists>p\<in>set rs. \<not> js_in p a)
      \<longrightarrow> (\<exists>r\<in>set rs. \<not> js_in r a \<and> callTool tools now name (Some a)
            = Inl (McpError InvalidParams (''Missing required parameter: '' @ r)))"
  proof
    assume "\<exists>p\<in>set rs. \<not> js_in p a"
    from check_required_some_missing [OF this]
    obtain r' where r': "r' \<in> set rs" "\<not> js_in r' a"
      "check_required rs (Some a)
         = Some (McpError InvalidParams (''Missing required parameter: '' @ r'))"
      by blast
    have "callTool tools now name (Some a)
            = Inl (McpError InvalidParams (''Missing required parameter: '' @ r'))"
      by (simp only: call r' option.case)
    with r' show "\<exists>r\<in>set rs. \<not> js_in r a \<and> callTool tools now name (Some a)
            = Inl (McpError InvalidParams (''Missing required parameter: '' @ r))"
      by blast
  qed
  have keys: "map fst a = map fst b
      \<longrightarrow> check_required rs (Some a) = check_required rs (Some b)"
    by (rule impI) (rule check_required_keys)
  have pass: "(\<forall>p\<in>set rs. js_in p a)
      \<longrightarrow> callTool tools now name (Some a)
            = (case tool_function t (Some a) of
                 Inl m \<Rightarrow> Inl (McpError InternalError (''API error: '' @ m))
               | Inr result \<Rightarrow> respond now name result)"
    by (simp add: call check_required_all)
  show ?thesis
    by (rule conjI [OF first conjI [OF some conjI [OF keys pass]]])
qed

text \<open>
  C7. The check is \<open>requiredParameter in args\<close>, and it misses two cases of a bag that
  lacks a required name. A request that carries no \<open>arguments\<close> at all, to a tool that
  requires \<open>store_Hash\<close>: the operator throws a TypeError outside the \<open>try\<close>, and
  the call fails with that TypeError, not with the InvalidParams fault that names
  \<open>store_Hash\<close>. And a required name that \<open>Object.prototype\<close> defines, such as
  \<open>toString\<close>: the empty bag passes the check and the operation runs.
\<close>

theorem required_check_misses:
  "callTool [mock_tool ''t'' [''store_Hash''] (Inr JNull)] sample_time ''t'' None
     = Inl (TypeError ''Cannot use 'in' operator to search for 'store_Hash' in undefined'')
   \<and> callTool [mock_tool ''t'' [''toString''] (Inr (JStr ''ran''))] sample_time ''t'' (Some [])
     = Inr \<lparr>content = [\<lparr>item_type = ''text'', item_text = ''ran''\<rparr>],
            isError = None,
            meta = Some \<lparr>toolName = ''t'', resultType = ''string'',
                          hasData = JBool False, timestamp = sample_time\<rparr>\<rparr>"
  by (simp add: callTool_def mock_tool_def in_undefined_def js_in_def Object_prototype_keys_def
        respond_def has_data_def)

section \<open>Failure by truthiness\<close>

text \<open>
  C9 as stated fails: the result \<open>{error: {toString: 0}}\<close> has a truthy \<open>error\<close>, but
  the template literal cannot convert it to a string; the TypeError is caught and the
  call raises InternalError instead of returning an \<open>isError\<close> response.
\<close>

theorem unconvertible_error_is_internal_error:
  "callTool [mock_tool ''t'' [] (Inr (JObj [(''error'', JObj [(''toString'', JNum 0)])]))]
       sample_time ''t'' (Some [])
     = Inl (McpError InternalError ''API error: Cannot convert object to primitive value'')"
  by (simp add: callTool_def mock_tool_def respond_def cannot_convert_def)

text \<open>
  C9, amended. For a call that reaches the operation and gets an object back, the branch
  is chosen by the truthiness of the object's \<open>error\<close> property: when it is falsy (the
  empty string, 0, \<open>false\<close>, \<open>null\<close> or absent) the object is formatted on the success
  path and the response has no \<open>isError\<close> key; when it is truthy, of any type, and has
  a string conversion, the response has \<open>isError = true\<close> and the text \<open>"Error: "\<close>
  plus that conversion; when it is truthy and its conversion throws (an object with an
  own \<open>toString\<close> property, or an array that holds one), the call raises InternalError.
\<close>

theorem failure_by_truthiness:
  assumes "find (\<lambda>t. tool_name t = name) tools = Some t"
    and "check_required (case required t of None \<Rightarrow> [] | Some rs \<Rightarrow> rs) args = None"
    and "tool_function t args = Inr (JObj kvs)"
  shows "(\<not> truthy_opt (map_of kvs ''error'')
            \<longrightarrow> callTool tools now name args
                  = Inr \<lparr>content = [\<lparr>item_type = ''text'', item_text = formatResult (JObj kvs)\<rparr>],
                         isError = None,
                         meta = Some \<lparr>toolName = name, resultType = ''object'',
                                       hasData = has_data (JObj kvs), timestamp = now\<rparr>\<rparr>)
       \<and> (map_of kvs ''error'' = Some e \<and> truthy e \<and> to_string e = Some s
            \<longrightarrow> callTool tools now name args
                  = Inr \<lparr>content = [\<lparr>item_type = ''text'', item_text = ''Error: '' @ s\<rparr>],
                         isError = Some True, meta = None\<rparr>)
       \<and> (map_of kvs ''error'' = Some e \<and> truthy e \<and> to_string e = None
            \<longrightarrow> callTool tools now name args
                  = Inl (McpError InternalError (''API error: '' @ cannot_convert)))"
  using assms by (simp add: callTool_def respond_def)

theorem failure_by_truthiness_witness:
  "callTool [mock_tool ''t'' [] (Inr (JObj [(''error'', JNum 0), (''id'', JNum 5)]))] sample_time ''t'' (Some [])
     = Inr \<lparr>content = [\<lparr>item_type = ''text'',
                         item_text = stringify2 (JObj [(''error'', JNum 0), (''id'', JNum 5)])\<rparr>],
            isError = None,
            meta = Some \<lparr>toolName = ''t'', resultType = ''object'',
                          hasData = JBool False, timestamp = sample_time\<rparr>\<rparr>
   \<and> callTool [mock_tool ''t'' [] (Inr (JObj [(''error'', JArr [JNum 404, JNull, JStr ''gone''])]))]
        sample_time ''t'' (Some [])
     = Inr \<lparr>content = [\<lparr>item_type = ''text'', item_text = ''Error: 404,,gone''\<rparr>],
            isError = Some True, meta = None\<rparr>
   \<and> callTool [mock_tool ''t'' [] (Inr (JObj [(''error'', JArr [JObj [(''toString'', JNull)]])]))]
        sample_time ''t'' (Some [])
     = Inl (McpError InternalError ''API error: Cannot convert object to primitive value'')"
  using
    failure_by_truthiness [where tools = "[mock_tool ''t'' [] (Inr (JObj [(''error'', JNum 0), (''id'', JNum 5)]))]"
      and name = "''t''" and t = "mock_tool ''t'' [] (Inr (JObj [(''error'', JNum 0), (''id'', JNum 5)]))"
      and args = "Some []" and kvs = "[(''error'', JNum 0), (''id'', JNum 5)]" and now = sample_time]
    failure_by_truthiness [where tools = "[mock_tool ''t'' [] (Inr (JObj [(''error'', JArr [JNum 404, JNull, JStr ''gone''])]))]"
      and name = "''t''" and t = "mock_tool ''t'' [] (Inr (JObj [(''error'', JArr [JNum 404, JNull, JStr ''gone''])]))"
      and args = "Some []" and kvs = "[(''error'', JArr [JNum 404, JNull, JStr ''gone''])]"
      and e = "JArr [JNum 404, JNull, JStr ''gone'']" and s = "''404,,gone''" and now = sample_time]
    failure_by_truthiness [where tools = "[mock_tool ''t'' [] (Inr (JObj [(''error'', JArr [JObj [(''toString'', JNull)]])]))]"
      and name = "''t''" and t = "mock_tool ''t'' [] (Inr (JObj [(''error'', JArr [JObj [(''toString'', JNull)]])]))"
      and args = "Some []" and kvs = "[(''error'', JArr [JObj [(''toString'', JNull)]])]"
      and e = "JArr [JObj [(''toString'', JNull)]]" and now = sample_time]
  by (simp add: mock_tool_def has_data_def cannot_convert_def JNum_def int_str_def
        nat_str.simps digit_char_def)

section \<open>Process exit\<close>

lemma run_exit_codes:
  "sigint (Serving Stdio tools) = Exited 0"
  "''--streamable-http'' \<notin> set args \<Longrightarrow> ''--sse'' \<notin> set args \<Longrightarrow>
     run args (Inl e) starts = Exited 1"
  "''--streamable-http'' \<in> set args \<Longrightarrow> ''--sse'' \<in> set args \<Longrightarrow>
     run args (Inr tools) starts = Exited 1"
  "''--streamable-http'' \<in> set args \<Longrightarrow> ''--sse'' \<notin> set args \<Longrightarrow> starts StreamableHttp \<Longrightarrow>
     run args (Inl e) starts = Serving StreamableHttp []"
  "''--streamable-http'' \<notin> set args \<Longrightarrow> ''--sse'' \<in> set args \<Longrightarrow> starts SSE \<Longrightarrow>
     run args (Inl e) starts = Serving SSE []"
  by (simp_all add: run_def recover_def)

text \<open>
  C8. The exit codes of the claim hold while discovery succeeds or one flag at most is
  given (\<open>run_exit_codes\<close>). With both \<open>--streamable-http\<close> and \<open>--sse\<close> and a
  discovery that throws, the check for the two flags is never reached: the process does
  not exit with 1 but serves the streamable HTTP binding with an empty tool list.
\<close>

theorem both_flags_after_failed_discovery:
  "run [''--streamable-http'', ''--sse''] (Inl e) (\<lambda>t. True)
     = (Serving StreamableHttp [] :: tool outcome)"
  by (simp add: run_def recover_def)

section \<open>Query construction\<close>












text \<open>
  A falsy \<open>limit\<close> is omitted like any other falsy argument: \<open>get_all_orders\<close> called
  with \<open>{limit: 0}\<close> sends the query \<open>page=1\<close>.
\<close>

lemma zero_limit_is_not_appended:
  "orders_query (Some [(''limit'', JNum 0)]) = Inr [(''page'', ''1'')]"
  by (simp add: orders_query_def orders_fields_def destructure_def convert_def JNum_def
        int_str_def nat_str.simps digit_char_def)



text \<open>The query that is built is the query of the URL that is fetched.\<close>

lemma request_urls:
  "orders_request env args = Inr rq \<Longrightarrow>
     \<exists>q sh. orders_query args = Inr q \<and> url rq = with_query (baseUrl @ ''/'' @ sh @ ''/v2/orders'') q"
  "customers_request env args = Inr rq \<Longrightarrow>
     \<exists>q sh. customers_query args = Inr q
       \<and> url rq = with_query (baseUrl @ ''/'' @ sh @ ''/v3/customers'') q"
  by (auto simp add: orders_request_def customers_request_def try_bind_def get_request_def
        split: sum.splits option.splits)

section \<open>Reading the response\<close>

lemma orders_query_default:
  "orders_query None = Inr [(''limit'', ''50''), (''page'', ''1'')]"
  by (simp add: orders_query_def orders_fields_def destructure_def convert_def JNum_def
        int_str_defaults)

lemma customers_query_default:
  "customers_query None = Inr [(''limit'', ''50''), (''page'', ''1'')]"
  by (simp add: customers_query_def customers_fields_def destructure_def convert_def JNum_def
        int_str_defaults)

lemma default_requests:
  "products_request (upstream r) None
     = Inr (get_request (upstream r) ''https://api.bigcommerce.com/stores/abc/v3/catalog/products'')"
  "orders_request (upstream r) None
     = Inr (get_request (upstream r)
         (with_query ''https://api.bigcommerce.com/stores/abc/v2/orders''
            [(''limit'', ''50''), (''page'', ''1'')]))"
  "customers_request (upstream r) None
     = Inr (get_request (upstream r)
         (with_query ''https://api.bigcommerce.com/stores/abc/v3/customers''
            [(''limit'', ''50''), (''page'', ''1'')]))"
  by (simp_all add: products_request_def orders_request_def customers_request_def
        orders_query_default customers_query_default try_bind_def storeHash_def destructure_def
        upstream_def baseUrl_def)

lemma default_results:
  "get_all_products (upstream r) None = caught ''products'' (read_response r)"
  "get_all_orders (upstream r) None = caught ''orders'' (read_response r)"
  "get_all_customers (upstream r) None = caught ''customers'' (read_customers r)"
  by (simp_all add: get_all_products_def get_all_orders_def get_all_customers_def
        default_requests try_bind_def) (simp_all add: upstream_def)

lemma read_response_empty_body:
  "ok r \<Longrightarrow> body r = [] \<Longrightarrow> read_response r = Inr empty_result"
  by (simp add: read_response_def)

lemma read_response_blank_body:
  "ok r \<Longrightarrow> trim (body r) = [] \<Longrightarrow> read_response r = Inr empty_result"
  by (simp add: read_response_def)

text \<open>
  C2. A 200 response with an empty body: \<open>get_all_products\<close> and \<open>get_all_orders\<close>
  return the sentinel \<open>{data: [], meta: {total: 0}}\<close> (for every 2xx response with an
  empty or blank body: \<open>read_response_empty_body\<close>, \<open>read_response_blank_body\<close>), but
  \<open>get_all_customers\<close> has no such check, parses the empty text and returns a failure.
\<close>

theorem customers_empty_body_is_failure:
  "get_all_customers (upstream empty_200) None
     = JObj [(''error'',
         JStr ''An error occurred while getting all customers: Unexpected end of JSON input'')]
   \<and> get_all_products (upstream empty_200) None = empty_result
   \<and> get_all_orders (upstream empty_200) None = empty_result"
  by (simp add: default_results caught_def failure_def read_customers_def read_response_def
        ok_def trim_def empty_200_def)

text \<open>
  C3 as stated fails: the query string of the request that \<open>get_all_orders\<close> sends for
  \<open>{customer_id: 3}\<close> holds, besides \<open>customer_id=3\<close>, the keys of two other parameters
  of the tool, \<open>limit\<close> and \<open>page\<close>.
\<close>

theorem customer_id_query_has_paging_keys:
  "orders_request (upstream empty_200) (Some [(''customer_id'', JNum 3)])
     = Inr \<lparr>url = ''https://api.bigcommerce.com/stores/abc/v2/orders?customer_id=3&limit=50&page=1'',
            http_method = ''GET'',
            headers = [(''X-Auth-Token'', Some ''key''),
                       (''Content-Type'', Some ''application/json''),
                       (''Accept'', Some ''application/json'')]\<rparr>"
  by (simp add: orders_request_def orders_query_def orders_fields_def destructure_def
        convert_def JNum_def int_str_def nat_str.simps digit_char_def try_bind_def storeHash_def
        upstream_def with_query_def query_string_def form_encode_def form_plain_def
        get_request_def request_headers_def baseUrl_def)

text \<open>
  C3, amended. \<open>get_all_orders\<close> called with \<open>{customer_id: 3}\<close> builds the parameters
  \<open>customer_id=3\<close>, \<open>limit=50\<close>, \<open>page=1\<close> and no other, and fetches with \<open>GET\<close> the
  URL of the store's orders whose query string is \<open>customer_id=3&limit=50&page=1\<close>:
  \<open>customer_id=3\<close>, the two paging defaults and the key of no other parameter.
\<close>

theorem orders_customer_id_query:
  "orders_query (Some [(''customer_id'', JNum 3)])
     = Inr [(''customer_id'', ''3''), (''limit'', ''50''), (''page'', ''1'')]
   \<and> (case orders_request env (Some [(''customer_id'', JNum 3)]) of
         Inl m \<Rightarrow> False
       | Inr rq \<Rightarrow>
           url rq = ''https://api.bigcommerce.com/stores/''
                      @ (case BIGCOMMERCE_STORE_HASH env of None \<Rightarrow> ''undefined'' | Some h \<Rightarrow> h)
                      @ ''/v2/orders?customer_id=3&limit=50&page=1''
           \<and> http_method rq = ''GET''
           \<and> headers rq = [(''X-Auth-Token'', BIGCOMMERCE_API_KEY env),
                            (''Content-Type'', Some ''application/json''),
                            (''Accept'', Some ''application/json'')]
           \<and> get_all_orders env (Some [(''customer_id'', JNum 3)])
               = caught ''orders'' (try_bind (fetch env rq) read_response))"
proof -
  have q: "orders_query (Some [(''customer_id'', JNum 3)])
     = Inr [(''customer_id'', ''3''), (''limit'', ''50''), (''page'', ''1'')]"
    by (simp add: orders_query_def orders_fields_def destructure_def convert_def JNum_def
          int_str_def nat_str.simps digit_char_def)
  have s: "query_string [(''customer_id'', ''3''), (''limit'', ''50''), (''page'', ''1'')]
     = ''customer_id=3&limit=50&page=1''"
    by (simp add: query_string_def form_encode_def form_plain_def)
  have r: "orders_request env (Some [(''customer_id'', JNum 3)])
     = Inr \<lparr>url = ''https://api.bigcommerce.com/stores/''
                    @ (case BIGCOMMERCE_STORE_HASH env of None \<Rightarrow> ''undefined'' | Some h \<Rightarrow> h)
                    @ ''/v2/orders?customer_id=3&limit=50&page=1'',
            http_method = ''GET'',
            headers = [(''X-Auth-Token'', BIGCOMMERCE_API_KEY env),
                       (''Content-Type'', Some ''application/json''),
                       (''Accept'', Some ''application/json'')]\<rparr>"
    by (simp add: orders_request_def q s try_bind_def storeHash_def destructure_def with_query_def
          get_request_def request_headers_def baseUrl_def split: option.splits)
  have g: "get_all_orders env (Some [(''customer_id'', JNum 3)])
     = caught ''orders''
         (try_bind
            (fetch env
               \<lparr>url = ''https://api.bigcommerce.com/stores/''
                    @ (case BIGCOMMERCE_STORE_HASH env of None \<Rightarrow> ''undefined'' | Some h \<Rightarrow> h)
                    @ ''/v2/orders?customer_id=3&limit=50&page=1'',
                http_method = ''GET'',
                headers = [(''X-Auth-Token'', BIGCOMMERCE_API_KEY env),
                           (''Content-Type'', Some ''application/json''),
                           (''Accept'', Some ''application/json'')]\<rparr>)
            read_response)"
    by (simp add: get_all_orders_def r try_bind_def)
  show ?thesis
    by (simp add: q r g)
qed

section \<open>HTML error pages\<close>














end
